theory Spec2Isabelle
  imports
    Main
    "HOL-Library.Sublist"
    "HOL-Library.AList"
    "HOL-Library.Product_Lexorder"
    "HOL-Library.Multiset"
begin

section \<open>Strings as the scripts use them\<close>

text \<open>
  The scripts work on Python \<open>str\<close> values.  A string is modelled as a \<open>char list\<close>;
  the character classes of \<open>re\<close> and of the \<open>str\<close> methods are given the meaning
  they have on ASCII text: \<open>\s\<close> and \<open>str.strip()\<close> use the code points
  9-13, 28-31 and 32, \<open>\w\<close> is a letter, a digit or the underscore, \<open>\d\<close> is a
  digit, and \<open>upper\<close>/\<open>lower\<close> change the 26 letters only.  A substring test
  \<open>p in s\<close> is \<open>sublist p s\<close>.
\<close>

definition is_space :: "char \<Rightarrow> bool" where
  "is_space c = (let n = (of_char c :: nat) in (9 \<le> n \<and> n \<le> 13) \<or> (28 \<le> n \<and> n \<le> 32))"

definition is_digit :: "char \<Rightarrow> bool" where
  "is_digit c = (let n = (of_char c :: nat) in 48 \<le> n \<and> n \<le> 57)"

definition is_lower :: "char \<Rightarrow> bool" where
  "is_lower c = (let n = (of_char c :: nat) in 97 \<le> n \<and> n \<le> 122)"

definition is_upper :: "char \<Rightarrow> bool" where
  "is_upper c = (let n = (of_char c :: nat) in 65 \<le> n \<and> n \<le> 90)"

definition is_word :: "char \<Rightarrow> bool" where
  "is_word c = (is_digit c \<or> is_lower c \<or> is_upper c \<or> c = CHR ''_'')"

definition upper_char :: "char \<Rightarrow> char" where
  "upper_char c = (if is_lower c then char_of ((of_char c :: nat) - 32) else c)"

definition lower_char :: "char \<Rightarrow> char" where
  "lower_char c = (if is_upper c then char_of ((of_char c :: nat) + 32) else c)"

definition upper :: "string \<Rightarrow> string" where
  "upper s = map upper_char s"

definition lower :: "string \<Rightarrow> string" where
  "lower s = map lower_char s"

text \<open>\<open>s.strip()\<close> and \<open>s.strip('.')\<close>.\<close>

definition strip_chars :: "(char \<Rightarrow> bool) \<Rightarrow> string \<Rightarrow> string" where
  "strip_chars P s = rev (dropWhile P (rev (dropWhile P s)))"

definition strip :: "string \<Rightarrow> string" where
  "strip s = strip_chars is_space s"

text \<open>\<open>s.replace(a, t)\<close> for a single character \<open>a\<close>.\<close>

definition replace_char :: "char \<Rightarrow> string \<Rightarrow> string \<Rightarrow> string" where
  "replace_char a t s = concat (map (\<lambda>c. if c = a then t else [c]) s)"

text \<open>
  The maximal runs of characters of a class, from left to right; \<open>cur\<close> is the run
  being read.  \<open>s.split()\<close> gives the runs of characters that are not whitespace,
  \<open>re.findall(r'\d+', s)\<close> the runs of digits.
\<close>

fun runs_acc :: "(char \<Rightarrow> bool) \<Rightarrow> string \<Rightarrow> string \<Rightarrow> string list" where
  "runs_acc P cur [] = (if cur = [] then [] else [cur])"
| "runs_acc P cur (c # cs) =
     (if P c then runs_acc P (cur @ [c]) cs
      else (if cur = [] then [] else [cur]) @ runs_acc P [] cs)"

definition runs :: "(char \<Rightarrow> bool) \<Rightarrow> string \<Rightarrow> string list" where
  "runs P s = runs_acc P [] s"

definition split :: "string \<Rightarrow> string list" where
  "split s = runs (\<lambda>c. \<not> is_space c) s"

definition findall_digits :: "string \<Rightarrow> string list" where
  "findall_digits s = runs is_digit s"

text \<open>\<open>s.isdigit()\<close>.\<close>

definition isdigit :: "string \<Rightarrow> bool" where
  "isdigit s = (s \<noteq> [] \<and> list_all is_digit s)"

text \<open>\<open>sep.join(parts)\<close>.\<close>

fun join :: "string \<Rightarrow> string list \<Rightarrow> string" where
  "join sep [] = []"
| "join sep [p] = p"
| "join sep (p # q # ps) = p @ sep @ join sep (q # ps)"

text \<open>\<open>str(n)\<close> for an integer.\<close>

fun str_nat :: "nat \<Rightarrow> string" where
  "str_nat n =
     (if n < 10 then [''0123456789'' ! n]
      else str_nat (n div 10) @ [''0123456789'' ! (n mod 10)])"

declare str_nat.simps [simp del]

definition str_int :: "int \<Rightarrow> string" where
  "str_int i = (if i < 0 then CHR ''-'' # str_nat (nat (- i)) else str_nat (nat i))"

text \<open>\<open>s[:k]\<close>; a negative \<open>k\<close> counts from the end.\<close>

definition slice_to :: "string \<Rightarrow> int \<Rightarrow> string" where
  "slice_to s k = (if 0 \<le> k then take (nat k) s else take (nat (int (length s) + k)) s)"

text \<open>\<open>s.rfind(c)\<close>: the last index of \<open>c\<close>, or \<open>-1\<close>.\<close>

fun rfind :: "char \<Rightarrow> string \<Rightarrow> int" where
  "rfind c [] = -1"
| "rfind c (x # xs) =
     (let r = rfind c xs in if 0 \<le> r then r + 1 else if x = c then 0 else -1)"

text \<open>
  \<open>os.path.splitext\<close> (\<open>genericpath._splitext\<close> with separator \<open>/\<close> and extension
  separator \<open>.\<close>): the extension starts at the last dot, unless that dot is not after
  the last separator or only dots lie between the separator and it.
\<close>

definition splitext :: "string \<Rightarrow> string \<times> string" where
  "splitext p =
     (let sepIndex = rfind CHR ''/'' p; dotIndex = rfind CHR ''.'' p in
      if dotIndex > sepIndex \<and>
         list_ex (\<lambda>c. c \<noteq> CHR ''.'')
           (take (nat (dotIndex - (sepIndex + 1))) (drop (nat (sepIndex + 1)) p))
      then (take (nat dotIndex) p, drop (nat dotIndex) p)
      else (p, []))"

section \<open>download\_urls\_data.py: file names\<close>

text \<open>The characters of the class \<open>[<>:"/\|?*]\<close>.\<close>

definition invalid_chars :: "char list" where
  "invalid_chars =
     [CHR ''<'', CHR ''>'', CHR '':'', CHR 0x22, CHR ''/'', CHR 0x5C, CHR ''|'', CHR ''?'',
      CHR ''*'']"

text \<open>\<open>re.sub(r'\s+', '_', s)\<close>: every maximal run of whitespace becomes one underscore.
  The flag says whether the previous character was whitespace.\<close>

fun sub_spaces :: "bool \<Rightarrow> string \<Rightarrow> string" where
  "sub_spaces prev [] = []"
| "sub_spaces prev (c # cs) =
     (if is_space c then (if prev then sub_spaces True cs else CHR ''_'' # sub_spaces True cs)
      else c # sub_spaces False cs)"

definition sanitize_filename :: "string \<Rightarrow> int \<Rightarrow> string" where
  "sanitize_filename filename max_length =
     (let f1 = map (\<lambda>c. if c \<in> set invalid_chars then CHR ''_'' else c) filename;
          f2 = sub_spaces False f1;
          f3 = strip_chars (\<lambda>c. c = CHR ''.'') f2;
          f4 = (if int (length f3) > max_length
                then (case splitext f3 of (name, ext) \<Rightarrow>
                        slice_to name (max_length - int (length ext)) @ ext)
                else f3)
      in if f4 = [] then ''unnamed'' else f4)"

section \<open>add\_models\_parallel.py\<close>

definition MAX_MODELS :: nat where
  "MAX_MODELS = 6"

text \<open>
  What \<open>client.task_run.execute\<close> does for one row: it raises \<open>parallel.APIError\<close>,
  it raises another exception, or it returns an output with a type and a content.  Of the
  content only the entry \<open>models\<close> is read: it is absent (also when the content is
  \<open>None\<close> or empty), it yields a sequence of values when the \<open>for\<close> loop iterates it,
  or it cannot be iterated.  A value is a \<open>str\<close> or something else.
\<close>

datatype json_value = JStr string | JOther

datatype models_entry = Absent | Items "json_value list" | NotIterable

datatype task_result =
    Raises_APIError string
  | Raises_Other string
  | Returns string models_entry

datatype fetch_error = APIError string | OtherException string

text \<open>The first loop of \<open>fetch_models\<close>: strings only, trimmed, no \<open>NONE\<close>, not empty.\<close>

fun cleaned_models :: "json_value list \<Rightarrow> string list" where
  "cleaned_models [] = []"
| "cleaned_models (JOther # ms) = cleaned_models ms"
| "cleaned_models (JStr m # ms) =
     (let trimmed = strip m in
      if upper trimmed = ''NONE'' then cleaned_models ms
      else if trimmed \<noteq> [] then trimmed # cleaned_models ms
      else cleaned_models ms)"

text \<open>The second loop: the first entry of every lower-case key is kept.\<close>

fun unique_models :: "string set \<Rightarrow> string list \<Rightarrow> string list" where
  "unique_models seen [] = []"
| "unique_models seen (m # ms) =
     (let key = lower m in
      if key \<notin> seen then m # unique_models (insert key seen) ms
      else unique_models seen ms)"

definition fetch_models :: "task_result \<Rightarrow> fetch_error + string list" where
  "fetch_models r =
     (case r of
        Raises_APIError e \<Rightarrow> Inl (APIError e)
      | Raises_Other e \<Rightarrow> Inl (OtherException e)
      | Returns ty entry \<Rightarrow>
          if ty \<noteq> ''json'' then Inr []
          else (case entry of
                  Absent \<Rightarrow> Inr (take MAX_MODELS (unique_models {} (cleaned_models [])))
                | Items ms \<Rightarrow> Inr (take MAX_MODELS (unique_models {} (cleaned_models ms)))
                | NotIterable \<Rightarrow> Inl (OtherException ''TypeError'')))"

text \<open>The \<open>try\<close> of \<open>process_asset\<close>: both handlers set \<open>models = []\<close>.\<close>

definition models_for_row :: "task_result \<Rightarrow> string list" where
  "models_for_row r = (case fetch_models r of Inl e \<Rightarrow> [] | Inr ms \<Rightarrow> ms)"

text \<open>A source row as \<open>load_rows\<close> builds it, and a result row of \<open>_build_result_rows\<close>;
  the keys \<open>_seq\<close> and \<open>_model_idx\<close> are read with \<open>get(..., 0)\<close>.\<close>

record source_row =
  r_asset :: string
  r_subtype :: string
  r_manufacturer :: string
  r_url :: string
  r_seq :: "int option"

record result_row =
  rr_asset_name :: string
  rr_subtype :: string
  rr_manufacturer :: string
  rr_url :: string
  rr_model :: string
  rr_seq :: "int option"
  rr_model_idx :: "int option"

definition get_or_0 :: "int option \<Rightarrow> int" where
  "get_or_0 v = (case v of None \<Rightarrow> 0 | Some i \<Rightarrow> i)"

definition result_entry :: "source_row \<Rightarrow> string \<Rightarrow> int \<Rightarrow> result_row" where
  "result_entry row m idx =
     \<lparr>rr_asset_name = r_asset row, rr_subtype = r_subtype row, rr_manufacturer = r_manufacturer row,
      rr_url = r_url row, rr_model = m, rr_seq = Some (get_or_0 (r_seq row)), rr_model_idx = Some idx\<rparr>"

definition build_result_rows :: "source_row \<Rightarrow> string list \<Rightarrow> result_row list" where
  "build_result_rows row models =
     (if models = [] then [result_entry row [] 0]
      else map (\<lambda>(idx, m). result_entry row m (int idx)) (enumerate 0 models))"

text \<open>\<open>process_asset\<close>: every row of the asset is fetched, its result rows are recorded,
  and the loop goes on to the next row.\<close>

definition process_asset :: "(source_row \<Rightarrow> task_result) \<Rightarrow> source_row list \<Rightarrow> result_row list" where
  "process_asset execute rows =
     concat (map (\<lambda>row. build_result_rows row (models_for_row (execute row))) rows)"

text \<open>The output file of \<open>save_models\<close>: the rows under the five field names, or no file.\<close>

record csv_row =
  c_asset :: string
  c_subtype :: string
  c_manufacturer :: string
  c_url :: string
  c_model :: string

definition sort_key_of :: "result_row \<Rightarrow> int \<times> int" where
  "sort_key_of r = (get_or_0 (rr_seq r), get_or_0 (rr_model_idx r))"

definition ordered_rows :: "result_row list \<Rightarrow> result_row list" where
  "ordered_rows rows_with_models = sort_key sort_key_of rows_with_models"

definition cleaned_row :: "result_row \<Rightarrow> csv_row" where
  "cleaned_row r =
     \<lparr>c_asset = rr_asset_name r, c_subtype = rr_subtype r, c_manufacturer = rr_manufacturer r,
      c_url = rr_url r, c_model = rr_model r\<rparr>"

definition save_models :: "result_row list \<Rightarrow> csv_row list option \<Rightarrow> csv_row list option" where
  "save_models rows_with_models output_file =
     (if rows_with_models = [] then output_file
      else Some (map cleaned_row (ordered_rows rows_with_models)))"

section \<open>check\_pdf\_model\_match.py: the matcher\<close>

text \<open>
  A search with \<open>re.IGNORECASE\<close> for a pattern that is a literal text: the text
  occurs at index \<open>i\<close> when the characters there have the same lower-case forms.
\<close>

definition occurs_at :: "string \<Rightarrow> string \<Rightarrow> nat \<Rightarrow> bool" where
  "occurs_at p s i = (i + length p \<le> length s \<and> lower (take (length p) (drop i s)) = lower p)"

text \<open>
  \<open>re.search(f"{keyword}.*{num}|{num}.*{keyword}", s, re.IGNORECASE)\<close>.  The keyword
  and the number consist of word characters, so both are literal texts; \<open>.*\<close> is any
  text without a line feed.  \<open>then_later a b s\<close> is the alternative \<open>a.*b\<close>.
\<close>

definition then_later :: "string \<Rightarrow> string \<Rightarrow> string \<Rightarrow> bool" where
  "then_later a b s =
     list_ex (\<lambda>i. occurs_at a s i \<and>
        list_ex (\<lambda>j. occurs_at b s j \<and>
           CHR 0x0A \<notin> set (take (j - (i + length a)) (drop (i + length a) s)))
          [i + length a ..< Suc (length s)])
       [0 ..< Suc (length s)]"

definition search_keyword_number :: "string \<Rightarrow> string \<Rightarrow> string \<Rightarrow> bool" where
  "search_keyword_number keyword num s = (then_later keyword num s \<or> then_later num keyword s)"

text \<open>\<open>\b\<close> at index \<open>i\<close>: exactly one of the characters before and after the
  index is a word character (there is none before the start and after the end).\<close>

definition word_at :: "string \<Rightarrow> int \<Rightarrow> bool" where
  "word_at s i = (0 \<le> i \<and> i < int (length s) \<and> is_word (s ! nat i))"

definition boundary :: "string \<Rightarrow> nat \<Rightarrow> bool" where
  "boundary s i = (word_at s (int i - 1) \<noteq> word_at s (int i))"

text \<open>
  The last test: \<open>r'\b' + re.escape(t) + r'\b'\<close> searched with \<open>re.IGNORECASE\<close>.
  The escaped text matches \<open>t\<close> itself, and \<open>t\<close> is the normalised model in which
  every space has been replaced by the three characters backslash, s, plus before the
  escaping.
\<close>

definition search_bounded :: "string \<Rightarrow> string \<Rightarrow> bool" where
  "search_bounded t s =
     list_ex (\<lambda>i. boundary s i \<and> occurs_at t s i \<and> boundary s (i + length t))
       [0 ..< Suc (length s)]"

text \<open>The five search patterns built from the normalised model, in the order of the list.\<close>

definition patterns :: "string \<Rightarrow> string list" where
  "patterns model_normalized =
     [model_normalized,
      filter (\<lambda>c. is_word c \<or> is_space c) model_normalized,
      replace_char CHR '' '' [] model_normalized,
      replace_char CHR '' '' ''-'' model_normalized,
      replace_char CHR ''-'' '' '' model_normalized]"

text \<open>The loop over the patterns: \<open>if pattern and pattern in content_upper\<close>.\<close>

definition pattern_found :: "string \<Rightarrow> string \<Rightarrow> bool" where
  "pattern_found model_normalized content_upper =
     list_ex (\<lambda>pattern. pattern \<noteq> [] \<and> sublist pattern content_upper)
       (patterns model_normalized)"

text \<open>The test on the words of the cleaned model: more than one word, all of them in the
  text, and a window \<open>content_upper[i:i+100]\<close>, \<open>i\<close> in
  \<open>range(len(content_upper) - 100)\<close>, that holds them all.\<close>

definition words_close :: "string list \<Rightarrow> string \<Rightarrow> bool" where
  "words_close words content_upper =
     (length words > 1
      \<and> list_all (\<lambda>word. sublist word content_upper) (filter (\<lambda>word. word \<noteq> []) words)
      \<and> list_ex (\<lambda>i. let chunk = take 100 (drop i content_upper) in
             length (filter (\<lambda>word. sublist word chunk) words) \<ge> length words)
           [0 ..< length content_upper - 100])"

text \<open>The test on the numbers of the model: some number and some keyword (a word that is
  not a number) are found on one line of the text.\<close>

definition number_near_keyword :: "string \<Rightarrow> string list \<Rightarrow> string \<Rightarrow> bool" where
  "number_near_keyword model_normalized words content_upper =
     (let numbers = findall_digits model_normalized in
      numbers \<noteq> [] \<and> length (split model_normalized) > 1
      \<and> list_ex (\<lambda>num.
            let model_keywords = filter (\<lambda>w. w \<noteq> [] \<and> \<not> isdigit w) words in
            model_keywords \<noteq> []
            \<and> list_ex (\<lambda>keyword. search_keyword_number keyword num content_upper)
                model_keywords)
          numbers)"

definition check_model_in_content :: "string \<Rightarrow> string \<Rightarrow> bool" where
  "check_model_in_content model content =
     (if model = [] \<or> content = [] then False
      else
        let model_normalized = upper (strip model);
            model_clean = filter (\<lambda>c. is_word c \<or> is_space c) model_normalized;
            content_upper = upper content;
            words = split model_clean
        in
          if pattern_found model_normalized content_upper then True
          else if words_close words content_upper then True
          else if number_near_keyword model_normalized words content_upper then True
          else search_bounded
                 (replace_char CHR '' '' [CHR 0x5C, CHR ''s'', CHR ''+''] model_normalized)
                 content)"



section \<open>download\_urls\_data.py: the download of one URL\<close>

definition CONCURRENT_DOWNLOADS :: nat where
  "CONCURRENT_DOWNLOADS = 20"

definition MAX_FILE_SIZE :: int where
  "MAX_FILE_SIZE = 100 * 1024 * 1024"

definition PDF_EXTENSIONS :: "string list" where
  "PDF_EXTENSIONS = [''.pdf'']"

definition IMAGE_EXTENSIONS :: "string list" where
  "IMAGE_EXTENSIONS =
     [''.jpg'', ''.jpeg'', ''.png'', ''.gif'', ''.webp'', ''.svg'', ''.bmp'', ''.tiff'', ''.ico'']"

definition DOC_EXTENSIONS :: "string list" where
  "DOC_EXTENSIONS = [''.doc'', ''.docx'', ''.xls'', ''.xlsx'', ''.ppt'', ''.pptx'']"

text \<open>
  Library functions the script calls and this theory does not define: the hexadecimal MD5
  digest of a URL, the unquoted path of a URL (\<open>unquote(urlparse(url).path)\<close>), and the
  visible text BeautifulSoup gives for a page once the \<open>script\<close>, \<open>style\<close>,
  \<open>nav\<close>, \<open>footer\<close> and \<open>header\<close> elements are removed (\<open>None\<close> when the
  extraction raises).
\<close>

record env =
  md5_hex :: "string \<Rightarrow> string"
  url_path :: "string \<Rightarrow> string"
  soup_text :: "string \<Rightarrow> string option"

text \<open>The fields of a CSV row that \<open>generate_filename\<close> reads with \<open>row_data.get\<close>.\<close>

record row_data =
  rd_manufacturer :: "string option"
  rd_model :: "string option"
  rd_category :: "string option"

text \<open>The dictionary \<open>result\<close>; the key \<open>text_path\<close> is set for HTML pages only.\<close>

record download_result =
  d_url :: string
  d_url_id :: string
  d_row_data :: row_data
  d_status :: string
  d_file_path :: "string option"
  d_file_size :: nat
  d_content_type :: "string option"
  d_error :: "string option"
  d_text_path :: "string option"

text \<open>
  What the download works on: the progress dictionary (keys in insertion order), the error
  list, the files under the output directory (path relative to it, content), and the URLs
  requested from the network so far.
\<close>

record dl_state =
  dl_progress :: "(string \<times> download_result) list"
  dl_errors :: "download_result list"
  dl_files :: "(string \<times> string) list"
  dl_requests :: "string list"

text \<open>The exceptions the \<open>try\<close> block tells apart, and what the server does: the
  request raises, or a response arrives whose body is read (or raises) later.\<close>

datatype exn = TimeoutError | ClientError string | OtherError string

record response =
  resp_status :: int
  resp_content_type :: "string option"
  resp_content_length :: "string option"
  resp_body :: "exn + string"

text \<open>\<open>int(s)\<close> for a decimal string: whitespace around, a sign, digits with single
  underscores between them; \<open>None\<close> is the \<open>ValueError\<close>.\<close>

definition digit_value :: "char \<Rightarrow> int" where
  "digit_value c = int (of_char c) - 48"

fun well_grouped :: "string \<Rightarrow> bool" where
  "well_grouped [] = False"
| "well_grouped [c] = is_digit c"
| "well_grouped (c # d # cs) =
     (is_digit c \<and> (if d = CHR ''_'' then well_grouped cs else well_grouped (d # cs)))"

definition parse_int :: "string \<Rightarrow> int option" where
  "parse_int s =
     (let t = strip s;
          neg = (t \<noteq> [] \<and> hd t = CHR ''-'');
          u = (if t \<noteq> [] \<and> (hd t = CHR ''-'' \<or> hd t = CHR ''+'') then tl t else t)
      in if well_grouped u
         then let v = foldl (\<lambda>a c. 10 * a + digit_value c) 0 (filter is_digit u)
              in Some (if neg then - v else v)
         else None)"

definition get_file_extension :: "env \<Rightarrow> string \<Rightarrow> string \<Rightarrow> string" where
  "get_file_extension e u content_type =
     (let path = url_path e u;
          ext = (if CHR ''.'' \<in> set path then lower (snd (splitext path)) else [])
      in if ext \<noteq> [] then ext
         else
           let ct = lower content_type in
           if sublist ''pdf'' ct then ''.pdf''
           else if sublist ''html'' ct \<or> sublist ''text/html'' ct then ''.html''
           else if sublist ''jpeg'' ct \<or> sublist ''jpg'' ct then ''.jpg''
           else if sublist ''png'' ct then ''.png''
           else if sublist ''gif'' ct then ''.gif''
           else if sublist ''json'' ct then ''.json''
           else if sublist ''xml'' ct then ''.xml''
           else if sublist ''text'' ct then ''.txt''
           else ''.bin'')"

definition truthy :: "string option \<Rightarrow> bool" where
  "truthy v = (case v of None \<Rightarrow> False | Some s \<Rightarrow> s \<noteq> [])"

definition generate_filename :: "env \<Rightarrow> string \<Rightarrow> row_data \<Rightarrow> string \<Rightarrow> string" where
  "generate_filename e u row content_type =
     (let parts =
            (if truthy (rd_manufacturer row)
             then [sanitize_filename (the (rd_manufacturer row)) 30] else [])
            @ (if truthy (rd_model row) then [sanitize_filename (the (rd_model row)) 30] else [])
            @ (if truthy (rd_category row)
               then [sanitize_filename (the (rd_category row)) 20] else []);
          base_name = (if parts \<noteq> [] then join ''_'' parts else ''download'');
          ext = get_file_extension e u content_type;
          url_hash = take 8 (md5_hex e u)
      in base_name @ ''_'' @ url_hash @ ext)"

text \<open>The subdirectory of the output directory the content goes to.\<close>

definition save_dir_of :: "string \<Rightarrow> string \<Rightarrow> string" where
  "save_dir_of ext content_type =
     (if ext \<in> set PDF_EXTENSIONS \<or> sublist ''pdf'' content_type then ''pdfs''
      else if ext \<in> set IMAGE_EXTENSIONS \<or> sublist ''image'' content_type then ''images''
      else if ext \<in> set DOC_EXTENSIONS
           \<or> list_ex (\<lambda>doc. sublist doc content_type) [''msword'', ''spreadsheet'', ''presentation'']
        then ''documents''
      else if ext = ''.html'' \<or> sublist ''html'' content_type then ''html''
      else ''other'')"

definition path_exists :: "(string \<times> string) list \<Rightarrow> string \<Rightarrow> bool" where
  "path_exists fs p = (map_of fs p \<noteq> None)"

definition write_file :: "string \<Rightarrow> string \<Rightarrow> (string \<times> string) list \<Rightarrow> (string \<times> string) list" where
  "write_file p content fs = AList.update p content fs"


text \<open>
  The loop \<open>while file_path.exists()\<close>: the candidate with the suffix \<open>_counter\<close>
  before the extension, for \<open>counter = 1, 2, ...\<close>.  The loop need not end for an
  arbitrary existence test, so the result is an option.
\<close>

definition suffixed :: "string \<Rightarrow> string \<Rightarrow> nat \<Rightarrow> string" where
  "suffixed save_dir filename counter =
     (case splitext filename of (name, ext) \<Rightarrow>
        save_dir @ ''/'' @ name @ ''_'' @ str_nat counter @ ext)"

partial_function (option) next_free :: "(string \<Rightarrow> bool) \<Rightarrow> (nat \<Rightarrow> string) \<Rightarrow> nat \<Rightarrow> string option" where
  "next_free taken candidate counter =
     (if taken (candidate counter) then next_free taken candidate (counter + 1)
      else Some (candidate counter))"

declare next_free.simps [code]

definition free_path :: "(string \<times> string) list \<Rightarrow> string \<Rightarrow> string \<Rightarrow> string option" where
  "free_path fs save_dir filename =
     (if path_exists fs (save_dir @ ''/'' @ filename)
      then next_free (path_exists fs) (suffixed save_dir filename) 1
      else Some (save_dir @ ''/'' @ filename))"

text \<open>\<open>Path.stem\<close> of a file name, and the file name of a path.\<close>

definition path_stem :: "string \<Rightarrow> string" where
  "path_stem name =
     (let i = rfind CHR ''.'' name in
      if 0 < i \<and> i < int (length name) - 1 then take (nat i) name else name)"

definition path_name :: "string \<Rightarrow> string" where
  "path_name p = drop (nat (rfind CHR ''/'' p + 1)) p"

text \<open>The three \<open>except\<close> clauses: the error is noted in the result, the result is
  appended to the error list and stored in the progress dictionary.\<close>

definition error_message :: "exn \<Rightarrow> string" where
  "error_message x =
     (case x of
        TimeoutError \<Rightarrow> ''Request timeout''
      | ClientError m \<Rightarrow> ''Client error: '' @ take 100 m
      | OtherError m \<Rightarrow> ''Error: '' @ take 100 m)"

definition handle_exception :: "exn \<Rightarrow> download_result \<Rightarrow> dl_state \<Rightarrow> download_result \<times> dl_state" where
  "handle_exception x result st =
     (let r = result\<lparr>d_status := ''error'', d_error := Some (error_message x)\<rparr>
      in (r, st\<lparr>dl_errors := dl_errors st @ [r],
                dl_progress := AList.update (d_url_id r) r (dl_progress st)\<rparr>))"

text \<open>The two early returns (status, size): the result is appended to the error list and
  returned; the statement that stores it in the progress dictionary is not reached.\<close>

definition return_error :: "string \<Rightarrow> download_result \<Rightarrow> dl_state \<Rightarrow> download_result \<times> dl_state" where
  "return_error msg result st =
     (let r = result\<lparr>d_status := ''error'', d_error := Some msg\<rparr>
      in (r, st\<lparr>dl_errors := dl_errors st @ [r]\<rparr>))"

text \<open>The text file written beside an HTML page: the words of the extracted text joined
  by single spaces, cut by the slice \<open>[:10000]\<close>.\<close>

definition page_text :: "string \<Rightarrow> string" where
  "page_text text = take 10000 (join '' '' (split text))"

text \<open>From the saving of the content to the end of the \<open>try\<close> block.\<close>

definition save_content ::
  "env \<Rightarrow> string \<Rightarrow> row_data \<Rightarrow> string \<Rightarrow> string \<Rightarrow> download_result \<Rightarrow> dl_state
     \<Rightarrow> (download_result \<times> dl_state) option" where
  "save_content e u row content_type content result st =
     (let ext = get_file_extension e u content_type;
          save_dir = save_dir_of ext content_type;
          filename = generate_filename e u row content_type
      in case free_path (dl_files st) save_dir filename of
           None \<Rightarrow> None
         | Some file_path \<Rightarrow>
             let ext' = (if path_exists (dl_files st) (save_dir @ ''/'' @ filename)
                         then snd (splitext filename) else ext);
                 fs1 = write_file file_path content (dl_files st);
                 r1 = result\<lparr>d_status := ''success'', d_file_path := Some file_path,
                             d_file_size := length content\<rparr>;
                 (fs2, r2) =
                   (if ext' = ''.html'' \<or> sublist ''html'' content_type
                    then (case soup_text e content of
                            None \<Rightarrow> (fs1, r1)
                          | Some text \<Rightarrow>
                              let text_path =
                                    save_dir @ ''/'' @ path_stem (path_name file_path) @ ''_text.txt''
                              in (write_file text_path (page_text text) fs1,
                                  r1\<lparr>d_text_path := Some text_path\<rparr>))
                    else (fs1, r1))
             in Some (r2, st\<lparr>dl_files := fs2,
                             dl_progress := AList.update (d_url_id r2) r2 (dl_progress st)\<rparr>))"

text \<open>\<open>response.headers.get('Content-Type', '').lower()\<close>.\<close>

definition response_content_type :: "response \<Rightarrow> string" where
  "response_content_type resp =
     lower (case resp_content_type resp of None \<Rightarrow> [] | Some h \<Rightarrow> h)"

text \<open>The test at the head of \<open>download_url\<close>: the record of the URL in the progress
  dictionary, when there is one and its status is \<open>success\<close>.\<close>

definition cached_result :: "env \<Rightarrow> string \<Rightarrow> dl_state \<Rightarrow> download_result option" where
  "cached_result e u st =
     (case map_of (dl_progress st) (md5_hex e u) of
        None \<Rightarrow> None
      | Some p \<Rightarrow> if d_status p = ''success'' then Some p else None)"

text \<open>
  \<open>download_url\<close>.  \<open>outcome\<close> is what \<open>session.get\<close> does for this URL.  The
  result is \<open>None\<close> when the call does not return.
\<close>

definition download_url ::
  "env \<Rightarrow> string \<Rightarrow> row_data \<Rightarrow> exn + response \<Rightarrow> dl_state
     \<Rightarrow> (download_result \<times> dl_state) option" where
  "download_url e u row outcome st =
     (let url_id = md5_hex e u in
      case cached_result e u st of
        Some p \<Rightarrow> Some (p, st)
      | None \<Rightarrow>
          let result = \<lparr>d_url = u, d_url_id = url_id, d_row_data = row, d_status = ''pending'',
                        d_file_path = None, d_file_size = 0, d_content_type = None,
                        d_error = None, d_text_path = None\<rparr>;
              st1 = st\<lparr>dl_requests := dl_requests st @ [u]\<rparr>
          in case outcome of
               Inl x \<Rightarrow> Some (handle_exception x result st1)
             | Inr resp \<Rightarrow>
                 if resp_status resp \<noteq> 200
                 then Some (return_error (''HTTP '' @ str_int (resp_status resp)) result st1)
                 else
                   let content_type = response_content_type resp;
                       result1 = result\<lparr>d_content_type := Some content_type\<rparr>;
                       declared =
                         (case resp_content_length resp of
                            None \<Rightarrow> Inr False
                          | Some h \<Rightarrow>
                              if h = [] then Inr False
                              else (case parse_int h of
                                      None \<Rightarrow>
                                        Inl (OtherError (''invalid literal for int() with base 10: ''
                                          @ [CHR 0x27] @ h @ [CHR 0x27]))
                                    | Some n \<Rightarrow> Inr (n > MAX_FILE_SIZE)))
                   in case declared of
                        Inl x \<Rightarrow> Some (handle_exception x result1 st1)
                      | Inr True \<Rightarrow>
                          Some (return_error
                            (''File too large: '' @ the (resp_content_length resp) @ '' bytes'')
                            result1 st1)
                      | Inr False \<Rightarrow>
                          (case resp_body resp of
                             Inl x \<Rightarrow> Some (handle_exception x result1 st1)
                           | Inr content \<Rightarrow>
                               if int (length content) > MAX_FILE_SIZE
                               then Some (return_error
                                 (''File too large: '' @ str_nat (length content) @ '' bytes'')
                                 result1 st1)
                               else save_content e u row content_type content result1 st1))"

section \<open>The three pipelines as runs over the stored state\<close>

text \<open>
  The handlers of a batch run concurrently in the scripts.  In the runs below the handlers
  of the pending items are applied one after the other, in list order; the part of each
  run that decides which items are pending, and what is done when none is, has no
  concurrency in the scripts either.
\<close>

subsection \<open>download\_urls\_data.py: main\<close>

text \<open>A row of the input CSV: the columns \<open>URL\<close> and \<open>url\<close> (when present) and the
  fields used for the file name.\<close>

record url_row =
  col_URL :: "string option"
  col_url :: "string option"
  url_row_data :: row_data

definition get_or_empty :: "string option \<Rightarrow> string" where
  "get_or_empty v = (case v of None \<Rightarrow> [] | Some s \<Rightarrow> s)"

definition read_urls_from_csv :: "url_row list \<Rightarrow> (string \<times> row_data) list" where
  "read_urls_from_csv csv_rows =
     concat (map (\<lambda>row.
        let u = strip (if get_or_empty (col_URL row) \<noteq> [] then get_or_empty (col_URL row)
                       else get_or_empty (col_url row))
        in if u \<noteq> [] \<and> (prefix ''http://'' u \<or> prefix ''https://'' u)
           then [(u, url_row_data row)] else [])
       csv_rows)"

text \<open>What a run of the downloader starts from and leaves behind: the progress file and
  the error log (\<open>None\<close>: the file is missing or unreadable, it loads as empty), the
  downloaded files, and the requests sent to the network.\<close>

record dl_world =
  w_progress_file :: "(string \<times> download_result) list option"
  w_error_log :: "download_result list option"
  w_files :: "(string \<times> string) list"
  w_requests :: "string list"

definition load_progress :: "dl_world \<Rightarrow> (string \<times> download_result) list" where
  "load_progress w = (case w_progress_file w of None \<Rightarrow> [] | Some p \<Rightarrow> p)"

definition load_errors :: "dl_world \<Rightarrow> download_result list" where
  "load_errors w = (case w_error_log w of None \<Rightarrow> [] | Some l \<Rightarrow> l)"

definition downloaded_ids :: "(string \<times> download_result) list \<Rightarrow> string list" where
  "downloaded_ids prog = map fst (filter (\<lambda>(pid, pdata). d_status pdata = ''success'') prog)"

definition remaining_urls ::
  "env \<Rightarrow> (string \<times> row_data) list \<Rightarrow> (string \<times> download_result) list
     \<Rightarrow> (string \<times> row_data) list" where
  "remaining_urls e urls_data prog =
     filter (\<lambda>(u, row). md5_hex e u \<notin> set (downloaded_ids prog)) urls_data"

fun download_all ::
  "env \<Rightarrow> (string \<Rightarrow> exn + response) \<Rightarrow> (string \<times> row_data) list \<Rightarrow> dl_state
     \<Rightarrow> dl_state option" where
  "download_all e server [] st = Some st"
| "download_all e server ((u, row) # rest) st =
     (case download_url e u row (server u) st of
        None \<Rightarrow> None
      | Some (r, st') \<Rightarrow> download_all e server rest st')"

definition main_download ::
  "env \<Rightarrow> (string \<Rightarrow> exn + response) \<Rightarrow> url_row list \<Rightarrow> dl_world \<Rightarrow> dl_world option" where
  "main_download e server csv_rows w =
     (let urls_data = read_urls_from_csv csv_rows;
          prog = load_progress w;
          errs = load_errors w;
          remaining = remaining_urls e urls_data prog
      in if remaining = [] then Some w
         else
           case download_all e server remaining
                  \<lparr>dl_progress = prog, dl_errors = errs, dl_files = w_files w,
                   dl_requests = w_requests w\<rparr> of
             None \<Rightarrow> None
           | Some st \<Rightarrow>
               Some \<lparr>w_progress_file = Some (dl_progress st), w_error_log = Some (dl_errors st),
                     w_files = dl_files st, w_requests = dl_requests st\<rparr>)"

subsection \<open>upload\_to\_r2.py: main\<close>

record upload_result =
  up_file_path :: string
  up_s3_key :: string
  up_status :: string
  up_size :: nat
  up_error :: "string option"

text \<open>The calls sent to the object storage, and what it answers: to \<open>head_bucket\<close>
  (accessible, a \<open>ClientError\<close> with its code, another exception) and to the upload of
  one file (done, a \<open>ClientError\<close> with code and message, another exception).\<close>

datatype storage_call = HeadBucket | UploadFile string

datatype bucket_answer = BucketOk | BucketClientError string | BucketException string

datatype upload_answer = UploadOk | UploadClientError string string | UploadException string

text \<open>What a run of the uploader starts from and leaves behind: the local files (path
  relative to the download directory, size), sorted as \<open>get_all_files\<close> returns them, the
  progress file, the error log, and the calls made.\<close>

record up_world =
  u_local_files :: "(string \<times> nat) list"
  u_progress_file :: "(string \<times> upload_result) list option"
  u_error_log :: "upload_result list option"
  u_calls :: "storage_call list"

definition generate_s3_key :: "string \<Rightarrow> string" where
  "generate_s3_key relative_path = replace_char (CHR 0x5C) ''/'' relative_path"

definition uploaded_keys :: "(string \<times> upload_result) list \<Rightarrow> string list" where
  "uploaded_keys prog = map (\<lambda>(k, p). up_s3_key p) (filter (\<lambda>(k, p). up_status p = ''success'') prog)"

definition load_upload_progress :: "up_world \<Rightarrow> (string \<times> upload_result) list" where
  "load_upload_progress w = (case u_progress_file w of None \<Rightarrow> [] | Some p \<Rightarrow> p)"

definition upload_file :: "upload_answer \<Rightarrow> string \<Rightarrow> nat \<Rightarrow> string \<Rightarrow> upload_result" where
  "upload_file answer file_path nbytes s3_key =
     (let result = \<lparr>up_file_path = file_path, up_s3_key = s3_key, up_status = ''pending'',
                    up_size = nbytes, up_error = None\<rparr>
      in case answer of
           UploadOk \<Rightarrow> result\<lparr>up_status := ''success''\<rparr>
         | UploadClientError code msg \<Rightarrow>
             result\<lparr>up_status := ''error'',
                    up_error := Some (''AWS Error '' @ code @ '': '' @ msg)\<rparr>
         | UploadException msg \<Rightarrow>
             result\<lparr>up_status := ''error'', up_error := Some (''Error: '' @ take 200 msg)\<rparr>)"

text \<open>The state while the uploads complete: progress, errors, calls.\<close>

fun upload_all ::
  "(string \<Rightarrow> upload_answer) \<Rightarrow> (string \<times> nat) list
     \<Rightarrow> (string \<times> upload_result) list \<times> upload_result list \<times> storage_call list
     \<Rightarrow> (string \<times> upload_result) list \<times> upload_result list \<times> storage_call list" where
  "upload_all storage [] acc = acc"
| "upload_all storage ((file_path, nbytes) # rest) (prog, errs, calls) =
     (let s3_key = generate_s3_key file_path;
          result = upload_file (storage s3_key) file_path nbytes s3_key
      in upload_all storage rest
           (AList.update s3_key result prog,
            (if up_status result = ''success'' then errs else errs @ [result]),
            calls @ [UploadFile s3_key]))"

definition main_upload ::
  "bool \<Rightarrow> bool \<Rightarrow> bucket_answer \<Rightarrow> (string \<Rightarrow> upload_answer) \<Rightarrow> up_world \<Rightarrow> up_world" where
  "main_upload credentials force_reupload bucket storage w =
     (if \<not> credentials then w
      else
        let w1 = w\<lparr>u_calls := u_calls w @ [HeadBucket]\<rparr> in
        if bucket \<noteq> BucketOk then w1
        else
          let all_files = u_local_files w;
              prog = load_upload_progress w;
              errs = (case u_error_log w of None \<Rightarrow> [] | Some l \<Rightarrow> l);
              remaining_files =
                (if force_reupload then all_files
                 else filter (\<lambda>(file_path, nbytes).
                        generate_s3_key file_path \<notin> set (uploaded_keys prog)) all_files)
          in if remaining_files = [] then w1
             else
               case upload_all storage remaining_files (prog, errs, u_calls w1) of
                 (prog', errs', calls') \<Rightarrow>
                   w\<lparr>u_progress_file := Some prog', u_error_log := Some errs',
                     u_calls := calls'\<rparr>)"

subsection \<open>check\_pdf\_model\_match.py: process\_csv\<close>

text \<open>A row of the table; \<open>None\<close> is an empty cell (pandas reads it as NaN).  An absent
  column \<open>Model_Related\<close> is a column of empty cells.\<close>

record check_row =
  cr_cloudflare_storage :: "string option"
  cr_url :: "string option"
  cr_model :: "string option"
  cr_content_type :: "string option"
  cr_model_related :: "string option"

text \<open>\<open>extract_text_from_url\<close>, which fetches the document: it returns the text and an
  error message, or raises.\<close>

type_synonym extractor = "string \<Rightarrow> string option \<Rightarrow> string + (string \<times> string option)"

definition process_single_row :: "extractor \<Rightarrow> string option \<Rightarrow> string option \<Rightarrow> string \<Rightarrow> string" where
  "process_single_row extract mdl content_type u =
     (case extract u content_type of
        Inl msg \<Rightarrow> ''Error: '' @ msg
      | Inr (extracted_text, error_msg) \<Rightarrow>
          if extracted_text = []
          then ''Error: '' @ (if truthy error_msg then the error_msg else ''Could not extract text'')
          else (case mdl of
                  None \<Rightarrow>
                    ''Error: '' @ [CHR 0x27] @ ''float'' @ [CHR 0x27]
                      @ '' object has no attribute '' @ [CHR 0x27] @ ''strip'' @ [CHR 0x27]
                | Some m \<Rightarrow> if check_model_in_content m extracted_text then ''Yes'' else ''No''))"

definition has_url :: "check_row \<Rightarrow> bool" where
  "has_url r = (truthy (cr_cloudflare_storage r) \<or> truthy (cr_url r))"

definition processed :: "check_row \<Rightarrow> bool" where
  "processed r =
     (case cr_model_related r of None \<Rightarrow> False | Some s \<Rightarrow> s \<noteq> [] \<and> strip s \<noteq> [])"

text \<open>The table file that is read and, without an output file, rewritten; the output
  file when one is given; the URLs fetched.\<close>

record check_world =
  cw_input :: "check_row list"
  cw_output :: "check_row list option"
  cw_fetched :: "string list"

fun check_all ::
  "extractor \<Rightarrow> (nat \<times> check_row) list \<Rightarrow> check_row list \<times> string list
     \<Rightarrow> check_row list \<times> string list" where
  "check_all extract [] acc = acc"
| "check_all extract ((idx, row) # rest) (df, fetched) =
     (if truthy (cr_cloudflare_storage row) \<or> truthy (cr_url row)
      then
        let u = (if truthy (cr_cloudflare_storage row) then the (cr_cloudflare_storage row)
                 else the (cr_url row));
            cell = process_single_row extract (cr_model row) (cr_content_type row) u
        in check_all extract rest
             (df[idx := (df ! idx)\<lparr>cr_model_related := Some cell\<rparr>], fetched @ [u])
      else
        check_all extract rest
          (df[idx := (df ! idx)\<lparr>cr_model_related := Some ''Error: No URL available''\<rparr>],
           fetched))"

text \<open>The partition of the rows that have a URL, with their row numbers.\<close>

definition all_rows_with_urls :: "check_row list \<Rightarrow> (nat \<times> check_row) list" where
  "all_rows_with_urls df = filter (\<lambda>(idx, row). has_url row) (enumerate 0 df)"

definition already_processed :: "check_row list \<Rightarrow> (nat \<times> check_row) list" where
  "already_processed df = filter (\<lambda>(idx, row). processed row) (all_rows_with_urls df)"

definition unprocessed :: "check_row list \<Rightarrow> (nat \<times> check_row) list" where
  "unprocessed df = filter (\<lambda>(idx, row). \<not> processed row) (all_rows_with_urls df)"

text \<open>\<open>if max_rows: rows_to_process = rows_to_process.head(max_rows)\<close>.\<close>

definition rows_to_process :: "nat option \<Rightarrow> check_row list \<Rightarrow> (nat \<times> check_row) list" where
  "rows_to_process max_rows df =
     (case max_rows of
        None \<Rightarrow> unprocessed df
      | Some n \<Rightarrow> if n = 0 then unprocessed df else take n (unprocessed df))"

definition process_csv :: "extractor \<Rightarrow> bool \<Rightarrow> nat option \<Rightarrow> check_world \<Rightarrow> check_world" where
  "process_csv extract to_output_file max_rows w =
     (let df = cw_input w in
      if already_processed df \<noteq> [] \<and> rows_to_process max_rows df = [] then w
      else
        case check_all extract (rows_to_process max_rows df) (df, cw_fetched w) of
          (df', fetched') \<Rightarrow>
            if to_output_file
            then w\<lparr>cw_output := Some df', cw_fetched := fetched'\<rparr>
            else w\<lparr>cw_input := df', cw_fetched := fetched'\<rparr>)"

section \<open>download\_urls\_data.py: how download\_batch schedules the downloads\<close>

text \<open>
  \<open>download_batch\<close> runs on one thread.  For every URL it enters
  \<open>async with semaphore\<close>, calls \<open>download_url(...)\<close>, which only makes a coroutine
  object (nothing of its body runs), appends it to \<open>tasks\<close>, sleeps, and leaves the
  \<open>async with\<close> block, which releases the semaphore.  After the loop
  \<open>asyncio.gather(*tasks)\<close> wraps every coroutine in a task; each task runs up to its
  first network wait, so all of them are in flight before any can finish.  The state: the
  value of the semaphore, the coroutines made and not started, the downloads in flight.
\<close>

record loop_state =
  sem_value :: nat
  made :: "nat list"
  in_flight :: "nat list"

text \<open>One turn of the \<open>for\<close> loop, for the URL with index \<open>i\<close>; \<open>None\<close> when the
  semaphore cannot be acquired (nothing would release it).  During the sleep the event loop
  runs the tasks that are ready: the coroutines in \<open>made\<close> are not tasks, so none.\<close>

definition submit :: "nat \<Rightarrow> loop_state \<Rightarrow> loop_state option" where
  "submit i s =
     (if sem_value s = 0 then None
      else
        let acquired = s\<lparr>sem_value := sem_value s - 1\<rparr>;
            appended = acquired\<lparr>made := made acquired @ [i]\<rparr>;
            slept = appended
        in Some (slept\<lparr>sem_value := sem_value slept + 1\<rparr>))"

fun submit_all :: "nat list \<Rightarrow> loop_state \<Rightarrow> loop_state option" where
  "submit_all [] s = Some s"
| "submit_all (i # rest) s = (case submit i s of None \<Rightarrow> None | Some s' \<Rightarrow> submit_all rest s')"

text \<open>\<open>asyncio.gather(*tasks)\<close>: every coroutine made is started.\<close>

definition gather :: "loop_state \<Rightarrow> loop_state" where
  "gather s = s\<lparr>made := [], in_flight := in_flight s @ made s\<rparr>"

text \<open>\<open>download_batch\<close> up to the point where it waits for the results, with the
  semaphore \<open>asyncio.Semaphore(CONCURRENT_DOWNLOADS)\<close> that \<open>main\<close> passes.\<close>

definition download_batch :: "nat list \<Rightarrow> loop_state option" where
  "download_batch urls =
     (case submit_all urls \<lparr>sem_value = CONCURRENT_DOWNLOADS, made = [], in_flight = []\<rparr> of
        None \<Rightarrow> None
      | Some s \<Rightarrow> Some (gather s))"

section \<open>Lemmas\<close>

subsection \<open>Strings\<close>

lemma strip_chars_ends:
  assumes "strip_chars P s \<noteq> []"
  shows "\<not> P (hd (strip_chars P s)) \<and> \<not> P (last (strip_chars P s))"
proof -
  define a where "a = dropWhile P s"
  define b where "b = dropWhile P (rev a)"
  have r: "strip_chars P s = rev b" by (simp add: strip_chars_def a_def b_def)
  from assms r have bne: "b \<noteq> []" by simp
  then have hb: "\<not> P (hd b)" unfolding b_def by (rule hd_dropWhile)
  from bne have ane: "a \<noteq> []" unfolding b_def by auto
  then have ha: "\<not> P (hd a)" unfolding a_def by (rule hd_dropWhile)
  have "suffix b (rev a)" unfolding b_def by (rule suffix_dropWhile)
  then obtain ps where "rev a = ps @ b" by (auto simp: suffix_def)
  with bne have "last b = last (rev a)" by simp
  also have "\<dots> = hd a" using ane by (simp add: last_rev)
  finally have lb: "last b = hd a" .
  show ?thesis using r bne hb ha lb by (simp add: hd_rev last_rev)
qed

subsection \<open>Model lists\<close>

lemma cleaned_models_props:
  "m \<in> set (cleaned_models js) \<Longrightarrow>
     m \<noteq> [] \<and> \<not> is_space (hd m) \<and> \<not> is_space (last m) \<and> upper m \<noteq> ''NONE''"
proof (induction js rule: cleaned_models.induct)
  case 1
  then show ?case by simp
next
  case (2 ms)
  then show ?case by simp
next
  case (3 m' ms)
  then show ?case
    using strip_chars_ends [of is_space m']
    by (auto simp: Let_def strip_def split: if_splits)
qed

lemma unique_models_subset: "set (unique_models seen ms) \<subseteq> set ms"
  by (induction ms arbitrary: seen) (auto simp: Let_def)

lemma unique_models_keys: "m \<in> set (unique_models seen ms) \<Longrightarrow> lower m \<notin> seen"
  by (induction ms arbitrary: seen) (auto simp: Let_def split: if_splits)

lemma unique_models_distinct: "distinct (map lower (unique_models seen ms))"
  by (induction ms arbitrary: seen) (auto simp: Let_def dest: unique_models_keys)

lemma unique_models_first:
  "m \<in> set (unique_models seen ms) \<Longrightarrow> find (\<lambda>y. lower y = lower m) ms = Some m"
  by (induction ms arbitrary: seen) (auto simp: Let_def split: if_splits dest: unique_models_keys)

lemma upper_NONE: "upper ''NONE'' = ''NONE''"
  by code_simp

lemma models_for_row_cases:
  "models_for_row r = [] \<or>
   (\<exists>js. r = Returns ''json'' (Items js) \<and>
      models_for_row r = take MAX_MODELS (unique_models {} (cleaned_models js)))"
  by (cases r) (auto simp: models_for_row_def fetch_models_def split: models_entry.splits)

lemma build_result_rows_seq:
  "\<exists>out \<in> set (build_result_rows row ms).
     rr_seq out = Some (get_or_0 (r_seq row)) \<and> rr_manufacturer out = r_manufacturer row"
proof (cases ms)
  case Nil
  then show ?thesis by (simp add: build_result_rows_def result_entry_def)
next
  case (Cons m ms')
  then show ?thesis
    by (simp add: build_result_rows_def result_entry_def enumerate_simps)
qed

subsection \<open>Sorting by a key without repetitions\<close>

lemma filter_key_singleton:
  "distinct (map f zs) \<Longrightarrow> k \<in> set zs \<Longrightarrow> filter (\<lambda>x. f k = f x) zs = [k]"
proof (induction zs)
  case Nil
  then show ?case by simp
next
  case (Cons z zs)
  show ?case
  proof (cases "k = z")
    case True
    have "filter (\<lambda>x. f z = f x) zs = []"
      using Cons.prems(1) by (auto simp: filter_empty_conv)
    with True show ?thesis by simp
  next
    case False
    with Cons.prems have kin: "k \<in> set zs" by simp
    have "f z \<notin> f ` set zs" using Cons.prems(1) by simp
    moreover have "f k \<in> f ` set zs" using kin by (rule imageI)
    ultimately have "f k \<noteq> f z" by metis
    with Cons.IH kin Cons.prems(1) show ?thesis by simp
  qed
qed

lemma sort_key_perm_unique:
  assumes "mset xs = mset ys" and "distinct (map f ys)"
  shows "sort_key f xs = sort_key f ys"
proof (rule properties_for_sort_key)
  show "mset (sort_key f ys) = mset xs" using assms(1) by simp
  show "sorted (map f (sort_key f ys))" by (rule sorted_sort_key)
  fix k assume k: "k \<in> set (sort_key f ys)"
  have dx: "distinct (map f xs)"
    using assms by (metis mset_map mset_eq_imp_distinct_iff)
  have ds: "distinct (map f (sort_key f ys))"
    using assms(2) by (metis mset_map mset_sort mset_eq_imp_distinct_iff)
  have kx: "k \<in> set xs" using k assms(1) by (metis mset_eq_setD set_sort)
  show "filter (\<lambda>x. f k = f x) (sort_key f ys) = filter (\<lambda>x. f k = f x) xs"
    using filter_key_singleton [OF ds k] filter_key_singleton [OF dx kx] by simp
qed

subsection \<open>Characters, substrings and runs\<close>

















lemma sublist_strip_chars: "sublist (strip_chars P s) s"
proof -
  have "prefix (rev (dropWhile P (rev (dropWhile P s)))) (dropWhile P s)"
    by (metis suffix_dropWhile suffix_to_prefix rev_rev_ident)
  moreover have "suffix (dropWhile P s) s" by (rule suffix_dropWhile)
  ultimately show ?thesis unfolding strip_chars_def
    by (meson prefix_imp_sublist suffix_imp_sublist sublist_order.order_trans)
qed










subsection \<open>The matcher\<close>









subsection \<open>File names\<close>

lemma sub_spaces_chars:
  "c \<in> set (sub_spaces prev s) \<Longrightarrow> c = CHR ''_'' \<or> (c \<in> set s \<and> \<not> is_space c)"
  by (induction s arbitrary: prev) (auto split: if_splits)

lemma underscore_safe: "CHR ''_'' \<notin> set invalid_chars \<and> \<not> is_space CHR ''_''"
  by (simp add: invalid_chars_def is_space_def)

lemma splitext_parts: "set (fst (splitext p)) \<subseteq> set p \<and> set (snd (splitext p)) \<subseteq> set p"
  by (auto simp: splitext_def Let_def dest: in_set_takeD in_set_dropD)

lemma slice_to_subset: "set (slice_to s k) \<subseteq> set s"
  by (auto simp: slice_to_def dest: in_set_takeD)

lemma sanitize_filename_safe:
  "sanitize_filename filename max_length \<noteq> []
   \<and> (\<forall>c \<in> set (sanitize_filename filename max_length). c \<notin> set invalid_chars \<and> \<not> is_space c)"
proof -
  define f1 where "f1 = map (\<lambda>c. if c \<in> set invalid_chars then CHR ''_'' else c) filename"
  define f2 where "f2 = sub_spaces False f1"
  define f3 where "f3 = strip_chars (\<lambda>c. c = CHR ''.'') f2"
  define f4 where "f4 = (if int (length f3) > max_length
                then (case splitext f3 of (name, ext) \<Rightarrow>
                        slice_to name (max_length - int (length ext)) @ ext)
                else f3)"
  have r: "sanitize_filename filename max_length = (if f4 = [] then ''unnamed'' else f4)"
    by (simp add: sanitize_filename_def Let_def f1_def f2_def f3_def f4_def)
  have s1: "c \<notin> set invalid_chars" if "c \<in> set f1" for c
    using that underscore_safe by (auto simp: f1_def)
  have s2: "c \<notin> set invalid_chars \<and> \<not> is_space c" if "c \<in> set f2" for c
    using sub_spaces_chars [of c False f1] that s1 underscore_safe by (auto simp: f2_def)
  have "set f3 \<subseteq> set f2" unfolding f3_def by (rule set_mono_sublist) (rule sublist_strip_chars)
  moreover have "set f4 \<subseteq> set f3"
  proof (cases "int (length f3) > max_length")
    case False
    then show ?thesis by (simp add: f4_def)
  next
    case True
    obtain name ext where ne: "splitext f3 = (name, ext)" by (cases "splitext f3")
    with splitext_parts [of f3] have "set name \<subseteq> set f3" "set ext \<subseteq> set f3" by simp_all
    moreover have "set (slice_to name (max_length - int (length ext))) \<subseteq> set name"
      by (rule slice_to_subset)
    ultimately show ?thesis using True ne by (auto simp: f4_def)
  qed
  ultimately have s4: "c \<notin> set invalid_chars \<and> \<not> is_space c" if "c \<in> set f4" for c
    using that s2 by blast
  have u: "\<forall>c \<in> set ''unnamed''. c \<notin> set invalid_chars \<and> \<not> is_space c"
    by (simp add: invalid_chars_def is_space_def)
  show ?thesis using r s4 u by auto
qed

subsection \<open>The download of one URL\<close>









lemma write_file_same: "map_of (write_file p content fs) p = Some content"
  by (simp add: write_file_def update_conv')


lemma parse_int_empty: "parse_int [] = None"
  by (simp add: parse_int_def strip_def strip_chars_def)

lemma declared_oversize:
  assumes "cached_result e u st = None" and "resp_status resp = 200"
    and "resp_content_length resp = Some h" and "parse_int h = Some n" and "n > MAX_FILE_SIZE"
  shows "\<exists>r st'. download_url e u row (Inr resp) st = Some (r, st') \<and> d_status r = ''error''
          \<and> (\<exists>m. d_error r = Some (''File too large'' @ m)) \<and> dl_files st' = dl_files st"
proof -
  from assms(4) have "h \<noteq> []" using parse_int_empty by auto
  with assms show ?thesis
    by (simp add: download_url_def Let_def return_error_def)
qed

lemma actual_oversize:
  assumes "cached_result e u st = None" and "resp_status resp = 200"
    and "resp_content_length resp = None \<or> resp_content_length resp = Some []
         \<or> (\<exists>h n. resp_content_length resp = Some h \<and> parse_int h = Some n \<and> n \<le> MAX_FILE_SIZE)"
    and "resp_body resp = Inr content" and "int (length content) > MAX_FILE_SIZE"
  shows "\<exists>r st'. download_url e u row (Inr resp) st = Some (r, st') \<and> d_status r = ''error''
          \<and> (\<exists>m. d_error r = Some (''File too large'' @ m)) \<and> dl_files st' = dl_files st"
proof -
  from assms(3) show ?thesis
  proof (elim disjE exE conjE)
    assume "resp_content_length resp = None"
    with assms(1,2,4,5) show ?thesis
      by (simp add: download_url_def Let_def return_error_def)
  next
    assume "resp_content_length resp = Some []"
    with assms(1,2,4,5) show ?thesis
      by (simp add: download_url_def Let_def return_error_def)
  next
    fix h n
    assume "resp_content_length resp = Some h" "parse_int h = Some n" "n \<le> MAX_FILE_SIZE"
    with assms(1,2,4,5) show ?thesis
      by (simp add: download_url_def Let_def return_error_def)
  qed
qed





lemma runs_acc_word:
  assumes "\<forall>c \<in> set w. P c" and "\<not> P s"
  shows "runs_acc P cur (w @ s # rest) = (if cur @ w = [] then [] else [cur @ w]) @ runs_acc P [] rest"
  using assms(1)
proof (induction w arbitrary: cur)
  case Nil
  then show ?case using assms(2) by simp
next
  case (Cons c w)
  then have "runs_acc P (cur @ [c]) (w @ s # rest)
      = (if (cur @ [c]) @ w = [] then [] else [(cur @ [c]) @ w]) @ runs_acc P [] rest"
    by (intro Cons.IH) simp
  with Cons.prems show ?case by simp
qed

lemma split_repeated_word:
  assumes "w \<noteq> []" and "\<forall>c \<in> set w. \<not> is_space c"
  shows "split (concat (replicate n (w @ '' ''))) = replicate n w"
proof (induction n)
  case 0
  show ?case by (simp add: split_def runs_def)
next
  case (Suc n)
  have sp: "is_space CHR '' ''" by (simp add: is_space_def)
  have "runs_acc (\<lambda>c. \<not> is_space c) [] (w @ CHR '' '' # concat (replicate n (w @ '' '')))
      = (if [] @ w = [] then [] else [[] @ w])
        @ runs_acc (\<lambda>c. \<not> is_space c) [] (concat (replicate n (w @ '' '')))"
    using assms(2) sp by (intro runs_acc_word) simp_all
  with assms(1) Suc show ?case by (simp add: split_def runs_def)
qed

lemma length_join:
  "ps \<noteq> [] \<Longrightarrow> length (join sep ps) = sum_list (map length ps) + length sep * (length ps - 1)"
  by (induction sep ps rule: join.induct) simp_all

subsection \<open>Runs with nothing pending\<close>

lemma nothing_remaining:
  assumes "\<forall>(u, row) \<in> set urls_data. md5_hex e u \<in> set (downloaded_ids prog)"
  shows "remaining_urls e urls_data prog = []"
  using assms by (auto simp: remaining_urls_def filter_empty_conv)

lemma nothing_unprocessed:
  assumes "\<forall>r \<in> set df. has_url r \<longrightarrow> processed r"
  shows "rows_to_process max_rows df = []"
proof -
  have "unprocessed df = []"
    using assms
    by (auto simp: unprocessed_def all_rows_with_urls_def filter_empty_conv in_set_enumerate_eq)
  then show ?thesis by (simp add: rows_to_process_def split: option.splits)
qed

lemma something_processed:
  assumes "r \<in> set df" and "has_url r" and "\<forall>r \<in> set df. has_url r \<longrightarrow> processed r"
  shows "already_processed df \<noteq> []"
proof -
  from assms(1) obtain i where i: "i < length df" "df ! i = r" by (auto simp: in_set_conv_nth)
  then have "(i, r) \<in> set (enumerate 0 df)" by (auto simp: in_set_enumerate_eq)
  with assms have "(i, r) \<in> set (already_processed df)"
    by (auto simp: already_processed_def all_rows_with_urls_def)
  then show ?thesis by (metis empty_iff list.set(1))
qed

section \<open>Results\<close>

text \<open>
  C6 (sanitize\_filename).  The length limit is missed when the extension of the cleaned
  name is longer than \<open>max_length\<close>: the slice bound \<open>max_length - len(ext)\<close> is
  negative, the extension is kept whole.  For the manufacturer name below and the limit 30
  that \<open>generate_filename\<close> passes, the result has 38 characters.  (The other two parts
  of the claim hold: see \<open>sanitize_filename_safe\<close>.)
\<close>

theorem sanitize_filename_exceeds_max_length:
  "sanitize_filename ''Acme Inc. International Boiler Company Ltd'' 30
     = ''Acme._International_Boiler_Company_Ltd''
   \<and> int (length (sanitize_filename ''Acme Inc. International Boiler Company Ltd'' 30)) > 30"
  by code_simp






text \<open>
  C7 (save\_models).  Whatever the order in which the result rows were delivered, the rows
  are written in nondecreasing lexicographic order of the pair (\<open>_seq\<close>,
  \<open>_model_idx\<close>), and they are the delivered rows.  When no two rows share a pair, as
  for the rows \<open>_build_result_rows\<close> makes from distinct sequence numbers, any two
  delivery orders of the same rows give the same file.
\<close>

theorem save_models_order:
  "sorted (map sort_key_of (ordered_rows delivered))
   \<and> mset (ordered_rows delivered) = mset delivered
   \<and> (delivered \<noteq> [] \<longrightarrow>
        save_models delivered f = Some (map cleaned_row (ordered_rows delivered)))
   \<and> (mset delivered = mset rows \<and> distinct (map sort_key_of rows) \<longrightarrow>
        save_models delivered f = save_models rows f)"
proof -
  have s: "sorted (map sort_key_of (ordered_rows delivered))"
    unfolding ordered_rows_def by (rule sorted_sort_key)
  have m: "mset (ordered_rows delivered) = mset delivered"
    unfolding ordered_rows_def by simp
  have w: "delivered \<noteq> [] \<longrightarrow>
      save_models delivered f = Some (map cleaned_row (ordered_rows delivered))"
    by (simp add: save_models_def)
  have p: "save_models delivered f = save_models rows f"
    if eq: "mset delivered = mset rows" and d: "distinct (map sort_key_of rows)"
  proof -
    have "ordered_rows delivered = ordered_rows rows"
      unfolding ordered_rows_def using eq d by (rule sort_key_perm_unique)
    moreover have "delivered = [] \<longleftrightarrow> rows = []"
      using eq by (metis mset_zero_iff)
    ultimately show ?thesis by (simp add: save_models_def)
  qed
  from s m w p show ?thesis by blast
qed

theorem save_models_order_witness:
  "[result_entry \<lparr>r_asset = ''Boiler'', r_subtype = ''Steam'', r_manufacturer = ''Acme'',
       r_url = ''http://x/a'', r_seq = Some 1\<rparr> ''X1'' 0,
    result_entry \<lparr>r_asset = ''Boiler'', r_subtype = ''Steam'', r_manufacturer = ''Bolt'',
       r_url = ''http://x/b'', r_seq = Some 0\<rparr> ''B2'' 1,
    result_entry \<lparr>r_asset = ''Boiler'', r_subtype = ''Steam'', r_manufacturer = ''Bolt'',
       r_url = ''http://x/b'', r_seq = Some 0\<rparr> ''B1'' 0] \<noteq> []
   \<and> save_models
       [result_entry \<lparr>r_asset = ''Boiler'', r_subtype = ''Steam'', r_manufacturer = ''Acme'',
          r_url = ''http://x/a'', r_seq = Some 1\<rparr> ''X1'' 0,
        result_entry \<lparr>r_asset = ''Boiler'', r_subtype = ''Steam'', r_manufacturer = ''Bolt'',
          r_url = ''http://x/b'', r_seq = Some 0\<rparr> ''B2'' 1,
        result_entry \<lparr>r_asset = ''Boiler'', r_subtype = ''Steam'', r_manufacturer = ''Bolt'',
          r_url = ''http://x/b'', r_seq = Some 0\<rparr> ''B1'' 0] None
     = save_models
       [result_entry \<lparr>r_asset = ''Boiler'', r_subtype = ''Steam'', r_manufacturer = ''Bolt'',
          r_url = ''http://x/b'', r_seq = Some 0\<rparr> ''B1'' 0,
        result_entry \<lparr>r_asset = ''Boiler'', r_subtype = ''Steam'', r_manufacturer = ''Bolt'',
          r_url = ''http://x/b'', r_seq = Some 0\<rparr> ''B2'' 1,
        result_entry \<lparr>r_asset = ''Boiler'', r_subtype = ''Steam'', r_manufacturer = ''Acme'',
          r_url = ''http://x/a'', r_seq = Some 1\<rparr> ''X1'' 0] None"
proof -
  let ?a = "result_entry \<lparr>r_asset = ''Boiler'', r_subtype = ''Steam'', r_manufacturer = ''Bolt'',
       r_url = ''http://x/b'', r_seq = Some 0\<rparr> ''B1'' 0"
  let ?b = "result_entry \<lparr>r_asset = ''Boiler'', r_subtype = ''Steam'', r_manufacturer = ''Bolt'',
       r_url = ''http://x/b'', r_seq = Some 0\<rparr> ''B2'' 1"
  let ?c = "result_entry \<lparr>r_asset = ''Boiler'', r_subtype = ''Steam'', r_manufacturer = ''Acme'',
       r_url = ''http://x/a'', r_seq = Some 1\<rparr> ''X1'' 0"
  have ne: "[?c, ?b, ?a] \<noteq> []" by simp
  have perm: "mset [?c, ?b, ?a] = mset [?a, ?b, ?c]" by (simp add: add.commute)
  have dist: "distinct (map sort_key_of [?a, ?b, ?c])"
    by (simp add: sort_key_of_def result_entry_def get_or_0_def)
  from save_models_order [of "[?c, ?b, ?a]" None "[?a, ?b, ?c]"] perm dist
  have "save_models [?c, ?b, ?a] None = save_models [?a, ?b, ?c] None" by blast
  with ne show ?thesis by blast
qed

text \<open>
  C8 (fetch\_models, and the handler of process\_asset around it).  Whatever the completion
  service does, every entry of the model list of a row is non-empty, begins and ends with a
  character that is not whitespace, and is not \<open>NONE\<close>; no two entries are equal
  ignoring case, each entry being the first of the cleaned response with its lower-case
  form; the list has at most \<open>MAX_MODELS\<close> entries; when the call raised, the list
  is empty, and every row handed to \<open>process_asset\<close> still gets a result row.
\<close>

theorem fetch_models_postprocessing:
  "(\<forall>m \<in> set (models_for_row r).
      m \<noteq> [] \<and> \<not> is_space (hd m) \<and> \<not> is_space (last m) \<and> m \<noteq> ''NONE'')
   \<and> distinct (map lower (models_for_row r))
   \<and> (\<forall>js. r = Returns ''json'' (Items js) \<longrightarrow>
        (\<forall>m \<in> set (models_for_row r).
           find (\<lambda>y. lower y = lower m) (cleaned_models js) = Some m))
   \<and> length (models_for_row r) \<le> MAX_MODELS
   \<and> ((\<exists>e. fetch_models r = Inl e) \<longrightarrow> models_for_row r = [])
   \<and> (\<forall>row \<in> set rows. \<exists>out \<in> set (process_asset execute rows).
        rr_seq out = Some (get_or_0 (r_seq row)) \<and> rr_manufacturer out = r_manufacturer row)"
proof -
  have sub: "set (models_for_row r) \<subseteq> set (cleaned_models js)"
    and uniq: "models_for_row r = take MAX_MODELS (unique_models {} (cleaned_models js))"
    if "r = Returns ''json'' (Items js)" for js
    using that unique_models_subset [of "{}" "cleaned_models js"]
    by (auto simp: models_for_row_def fetch_models_def dest: in_set_takeD)
  have c1: "\<forall>m \<in> set (models_for_row r).
      m \<noteq> [] \<and> \<not> is_space (hd m) \<and> \<not> is_space (last m) \<and> m \<noteq> ''NONE''"
  proof
    fix m assume m: "m \<in> set (models_for_row r)"
    then have "models_for_row r \<noteq> []" by auto
    with models_for_row_cases [of r] obtain js where js: "r = Returns ''json'' (Items js)"
      by blast
    with m sub have "m \<in> set (cleaned_models js)" by blast
    from cleaned_models_props [OF this] upper_NONE
    show "m \<noteq> [] \<and> \<not> is_space (hd m) \<and> \<not> is_space (last m) \<and> m \<noteq> ''NONE''"
      by metis
  qed
  have c2: "distinct (map lower (models_for_row r))"
    using models_for_row_cases [of r] unique_models_distinct [of "{}"]
    by (auto simp: take_map [symmetric] intro: distinct_take)
  have c3: "\<forall>js. r = Returns ''json'' (Items js) \<longrightarrow>
        (\<forall>m \<in> set (models_for_row r).
           find (\<lambda>y. lower y = lower m) (cleaned_models js) = Some m)"
  proof (intro allI impI ballI)
    fix js m assume js: "r = Returns ''json'' (Items js)" and m: "m \<in> set (models_for_row r)"
    from m uniq [OF js] have "m \<in> set (unique_models {} (cleaned_models js))"
      by (auto dest: in_set_takeD)
    then show "find (\<lambda>y. lower y = lower m) (cleaned_models js) = Some m"
      by (rule unique_models_first)
  qed
  have c4: "length (models_for_row r) \<le> MAX_MODELS"
    using models_for_row_cases [of r] by auto
  have c5: "(\<exists>e. fetch_models r = Inl e) \<longrightarrow> models_for_row r = []"
    by (auto simp: models_for_row_def)
  have c6: "\<forall>row \<in> set rows. \<exists>out \<in> set (process_asset execute rows).
        rr_seq out = Some (get_or_0 (r_seq row)) \<and> rr_manufacturer out = r_manufacturer row"
  proof
    fix row assume row: "row \<in> set rows"
    from build_result_rows_seq [of row "models_for_row (execute row)"]
    obtain out where "out \<in> set (build_result_rows row (models_for_row (execute row)))"
      and "rr_seq out = Some (get_or_0 (r_seq row)) \<and> rr_manufacturer out = r_manufacturer row"
      by blast
    with row show "\<exists>out \<in> set (process_asset execute rows).
        rr_seq out = Some (get_or_0 (r_seq row)) \<and> rr_manufacturer out = r_manufacturer row"
      by (auto simp: process_asset_def)
  qed
  from c1 c2 c3 c4 c5 c6 show ?thesis by blast
qed

theorem fetch_models_postprocessing_witness:
  "models_for_row (Returns ''json''
      (Items [JStr '' S7-1200 '', JStr ''none'', JOther, JStr ''s7-1200'', JStr [],
              JStr ''A'', JStr ''B'', JStr ''C'', JStr ''D'', JStr ''E'', JStr ''F'']))
     = [''S7-1200'', ''A'', ''B'', ''C'', ''D'', ''E'']
   \<and> find (\<lambda>y. lower y = lower ''S7-1200'')
        (cleaned_models [JStr '' S7-1200 '', JStr ''none'', JOther, JStr ''s7-1200'', JStr [],
              JStr ''A'', JStr ''B'', JStr ''C'', JStr ''D'', JStr ''E'', JStr ''F''])
       = Some ''S7-1200''
   \<and> fetch_models (Raises_APIError ''rate limit'') = Inl (APIError ''rate limit'')
   \<and> models_for_row (Raises_APIError ''rate limit'') = []
   \<and> (\<exists>out \<in> set (process_asset (\<lambda>row. Raises_APIError ''rate limit'')
          [\<lparr>r_asset = ''Boiler'', r_subtype = ''Steam'', r_manufacturer = ''Acme'',
            r_url = ''http://x/a'', r_seq = Some 4\<rparr>]).
        rr_seq out = Some 4 \<and> rr_manufacturer out = ''Acme'')"
proof -
  let ?js = "[JStr '' S7-1200 '', JStr ''none'', JOther, JStr ''s7-1200'', JStr [],
              JStr ''A'', JStr ''B'', JStr ''C'', JStr ''D'', JStr ''E'', JStr ''F'']"
  let ?row = "\<lparr>r_asset = ''Boiler'', r_subtype = ''Steam'', r_manufacturer = ''Acme'',
            r_url = ''http://x/a'', r_seq = Some 4\<rparr>"
  have v: "models_for_row (Returns ''json'' (Items ?js))
      = [''S7-1200'', ''A'', ''B'', ''C'', ''D'', ''E'']"
    by code_simp
  then have mem: "''S7-1200'' \<in> set (models_for_row (Returns ''json'' (Items ?js)))"
    by simp
  from fetch_models_postprocessing [of "Returns ''json'' (Items ?js)" "[]" undefined] mem
  have f: "find (\<lambda>y. lower y = lower ''S7-1200'') (cleaned_models ?js) = Some ''S7-1200''"
    by blast
  have e: "fetch_models (Raises_APIError ''rate limit'') = Inl (APIError ''rate limit'')"
    by (simp add: fetch_models_def)
  from fetch_models_postprocessing [of "Raises_APIError ''rate limit''" "[?row]"
      "\<lambda>row. Raises_APIError ''rate limit''"] e
  have "models_for_row (Raises_APIError ''rate limit'') = []"
    and "\<exists>out \<in> set (process_asset (\<lambda>row. Raises_APIError ''rate limit'') [?row]).
        rr_seq out = Some 4 \<and> rr_manufacturer out = ''Acme''"
    by (simp_all add: get_or_0_def)
  with v f e show ?thesis by blast
qed


text \<open>
  C3 (errors of one item).  \<open>download_url\<close> catches every error and returns an error
  result, but for a response whose status is not 200 (and for an oversize response) it
  returns from inside the \<open>try\<close> block, before the statement
  \<open>progress[url_id] = result\<close>: the message goes to the error list only, and the
  progress dictionary gets no record of the item.  Here: a 404 answer, starting from an
  empty progress dictionary.
\<close>

theorem http_error_missing_from_progress:
  "map_option (\<lambda>(r, st'). (d_status r, d_error r, map d_error (dl_errors st'), dl_progress st'))
     (download_url
        \<lparr>md5_hex = (\<lambda>u. ''4741ecc95b697a32b49bca9176b3aafc''), url_path = (\<lambda>u. ''/a.pdf''),
         soup_text = (\<lambda>c. None)\<rparr>
        ''http://x/a.pdf''
        \<lparr>rd_manufacturer = Some ''Acme'', rd_model = Some ''X1'', rd_category = None\<rparr>
        (Inr \<lparr>resp_status = 404, resp_content_type = Some ''text/html'',
              resp_content_length = None, resp_body = Inr ''Not Found''\<rparr>)
        \<lparr>dl_progress = [], dl_errors = [], dl_files = [], dl_requests = []\<rparr>)
   = Some (''error'', Some ''HTTP 404'', [Some ''HTTP 404''], [])"
  by code_simp

text \<open>
  C4 (oversize guard).  As stated the claim fails for a response whose status is not 200:
  the status is tested first, and the message is \<open>HTTP 404\<close>, whatever the declared
  length.
\<close>

theorem oversize_not_reported_for_404_counterexample:
  "parse_int ''200000000'' = Some 200000000 \<and> 200000000 > MAX_FILE_SIZE
   \<and> map_option (\<lambda>(r, st'). d_error r)
     (download_url
        \<lparr>md5_hex = (\<lambda>u. ''4741ecc95b697a32b49bca9176b3aafc''), url_path = (\<lambda>u. ''/a.pdf''),
         soup_text = (\<lambda>c. None)\<rparr>
        ''http://x/a.pdf''
        \<lparr>rd_manufacturer = Some ''Acme'', rd_model = Some ''X1'', rd_category = None\<rparr>
        (Inr \<lparr>resp_status = 404, resp_content_type = Some ''text/html'',
              resp_content_length = Some ''200000000'', resp_body = Inr ''Not Found''\<rparr>)
        \<lparr>dl_progress = [], dl_errors = [], dl_files = [], dl_requests = []\<rparr>)
   = Some (Some ''HTTP 404'')"
  by code_simp

text \<open>
  C4 as amended.  For a URL without a success record and a response with status 200:
  when the Content-Length header is a number above \<open>MAX_FILE_SIZE\<close>, and when the
  header lets the body be read (it is absent, empty, or a number not above the limit) and
  the body is longer than \<open>MAX_FILE_SIZE\<close>, \<open>download_url\<close> returns an error
  result whose message begins with \<open>File too large\<close>, and the files are as before.
\<close>

theorem oversize_rejected:
  "cached_result e u st = None \<and> resp_status resp = 200 \<and>
   ((\<exists>h n. resp_content_length resp = Some h \<and> parse_int h = Some n \<and> n > MAX_FILE_SIZE)
    \<or> ((resp_content_length resp = None \<or> resp_content_length resp = Some []
         \<or> (\<exists>h n. resp_content_length resp = Some h \<and> parse_int h = Some n
                \<and> n \<le> MAX_FILE_SIZE))
        \<and> (\<exists>content. resp_body resp = Inr content \<and> int (length content) > MAX_FILE_SIZE)))
   \<longrightarrow> (\<exists>r st'. download_url e u row (Inr resp) st = Some (r, st') \<and> d_status r = ''error''
          \<and> (\<exists>m. d_error r = Some (''File too large'' @ m)) \<and> dl_files st' = dl_files st)"
proof (intro impI)
  assume a: "cached_result e u st = None \<and> resp_status resp = 200 \<and>
   ((\<exists>h n. resp_content_length resp = Some h \<and> parse_int h = Some n \<and> n > MAX_FILE_SIZE)
    \<or> ((resp_content_length resp = None \<or> resp_content_length resp = Some []
         \<or> (\<exists>h n. resp_content_length resp = Some h \<and> parse_int h = Some n
                \<and> n \<le> MAX_FILE_SIZE))
        \<and> (\<exists>content. resp_body resp = Inr content \<and> int (length content) > MAX_FILE_SIZE)))"
  then have c: "cached_result e u st = None" and s: "resp_status resp = 200" by simp_all
  from a have "(\<exists>h n. resp_content_length resp = Some h \<and> parse_int h = Some n \<and> n > MAX_FILE_SIZE)
    \<or> ((resp_content_length resp = None \<or> resp_content_length resp = Some []
         \<or> (\<exists>h n. resp_content_length resp = Some h \<and> parse_int h = Some n
                \<and> n \<le> MAX_FILE_SIZE))
        \<and> (\<exists>content. resp_body resp = Inr content \<and> int (length content) > MAX_FILE_SIZE))"
    by simp
  then show "\<exists>r st'. download_url e u row (Inr resp) st = Some (r, st') \<and> d_status r = ''error''
          \<and> (\<exists>m. d_error r = Some (''File too large'' @ m)) \<and> dl_files st' = dl_files st"
  proof (elim disjE)
    assume "\<exists>h n. resp_content_length resp = Some h \<and> parse_int h = Some n \<and> n > MAX_FILE_SIZE"
    then obtain h n where "resp_content_length resp = Some h" "parse_int h = Some n"
      "n > MAX_FILE_SIZE" by blast
    with c s show ?thesis by (rule declared_oversize)
  next
    assume b: "(resp_content_length resp = None \<or> resp_content_length resp = Some []
         \<or> (\<exists>h n. resp_content_length resp = Some h \<and> parse_int h = Some n
                \<and> n \<le> MAX_FILE_SIZE))
        \<and> (\<exists>content. resp_body resp = Inr content \<and> int (length content) > MAX_FILE_SIZE)"
    then obtain content where "resp_body resp = Inr content"
      "int (length content) > MAX_FILE_SIZE" by blast
    moreover from b have "resp_content_length resp = None \<or> resp_content_length resp = Some []
         \<or> (\<exists>h n. resp_content_length resp = Some h \<and> parse_int h = Some n
                \<and> n \<le> MAX_FILE_SIZE)" by simp
    ultimately show ?thesis using c s by (intro actual_oversize)
  qed
qed

theorem oversize_rejected_witness:
  "(\<exists>r st'. download_url
        \<lparr>md5_hex = (\<lambda>u. ''4741ecc95b697a32b49bca9176b3aafc''), url_path = (\<lambda>u. ''/a.pdf''),
         soup_text = (\<lambda>c. None)\<rparr>
        ''http://x/a.pdf''
        \<lparr>rd_manufacturer = Some ''Acme'', rd_model = Some ''X1'', rd_category = None\<rparr>
        (Inr \<lparr>resp_status = 200, resp_content_type = Some ''application/pdf'',
              resp_content_length = Some ''200000000'', resp_body = Inr ''%PDF''\<rparr>)
        \<lparr>dl_progress = [], dl_errors = [], dl_files = [(''pdfs/old.pdf'', ''x'')],
         dl_requests = []\<rparr> = Some (r, st')
      \<and> d_status r = ''error'' \<and> (\<exists>m. d_error r = Some (''File too large'' @ m))
      \<and> dl_files st' = [(''pdfs/old.pdf'', ''x'')])
   \<and> (\<exists>r st'. download_url
        \<lparr>md5_hex = (\<lambda>u. ''4741ecc95b697a32b49bca9176b3aafc''), url_path = (\<lambda>u. ''/a.pdf''),
         soup_text = (\<lambda>c. None)\<rparr>
        ''http://x/a.pdf''
        \<lparr>rd_manufacturer = Some ''Acme'', rd_model = Some ''X1'', rd_category = None\<rparr>
        (Inr \<lparr>resp_status = 200, resp_content_type = Some ''application/pdf'',
              resp_content_length = None,
              resp_body = Inr (replicate 104857601 (CHR ''a''))\<rparr>)
        \<lparr>dl_progress = [], dl_errors = [], dl_files = [(''pdfs/old.pdf'', ''x'')],
         dl_requests = []\<rparr> = Some (r, st')
      \<and> d_status r = ''error'' \<and> (\<exists>m. d_error r = Some (''File too large'' @ m))
      \<and> dl_files st' = [(''pdfs/old.pdf'', ''x'')])"
proof -
  let ?e = "\<lparr>md5_hex = (\<lambda>u. ''4741ecc95b697a32b49bca9176b3aafc''), url_path = (\<lambda>u. ''/a.pdf''),
         soup_text = (\<lambda>c. None)\<rparr>"
  let ?st = "\<lparr>dl_progress = [], dl_errors = [], dl_files = [(''pdfs/old.pdf'', ''x'')],
         dl_requests = []\<rparr>"
  let ?declared = "\<lparr>resp_status = 200, resp_content_type = Some ''application/pdf'',
              resp_content_length = Some ''200000000'', resp_body = Inr ''%PDF''\<rparr>"
  let ?actual = "\<lparr>resp_status = 200, resp_content_type = Some ''application/pdf'',
              resp_content_length = None,
              resp_body = Inr (replicate 104857601 (CHR ''a''))\<rparr>"
  have c: "cached_result ?e ''http://x/a.pdf'' ?st = None"
    by (simp add: cached_result_def)
  have p: "parse_int ''200000000'' = Some 200000000 \<and> 200000000 > MAX_FILE_SIZE"
    by code_simp
  have l: "int (length (replicate 104857601 (CHR ''a''))) > MAX_FILE_SIZE"
    by (simp add: MAX_FILE_SIZE_def)
  from oversize_rejected [of ?e "''http://x/a.pdf''" ?st ?declared] c p
  have 1: "\<exists>r st'. download_url ?e ''http://x/a.pdf''
        \<lparr>rd_manufacturer = Some ''Acme'', rd_model = Some ''X1'', rd_category = None\<rparr>
        (Inr ?declared) ?st = Some (r, st')
      \<and> d_status r = ''error'' \<and> (\<exists>m. d_error r = Some (''File too large'' @ m))
      \<and> dl_files st' = dl_files ?st"
    by simp
  from oversize_rejected [of ?e "''http://x/a.pdf''" ?st ?actual] c l
  have 2: "\<exists>r st'. download_url ?e ''http://x/a.pdf''
        \<lparr>rd_manufacturer = Some ''Acme'', rd_model = Some ''X1'', rd_category = None\<rparr>
        (Inr ?actual) ?st = Some (r, st')
      \<and> d_status r = ''error'' \<and> (\<exists>m. d_error r = Some (''File too large'' @ m))
      \<and> dl_files st' = dl_files ?st"
    by simp
  from 1 2 show ?thesis by simp
qed

text \<open>
  C9 (text of an HTML page).  The slice \<open>[:10000]\<close> is applied to the joined string, so
  it keeps 10,000 characters, not 10,000 words (the comment beside it says words).  A page
  whose text is 2001 words of five letters has fewer than 10,000 words and 12,005
  characters once joined; the text written beside it has 10,000 characters.
\<close>

theorem page_text_cut_at_characters:
  "length (split (concat (replicate 2001 ''aaaaa ''))) = 2001
   \<and> length (join '' '' (split (concat (replicate 2001 ''aaaaa '')))) = 12005
   \<and> length (page_text (concat (replicate 2001 ''aaaaa ''))) = 10000"
proof -
  have w: "''aaaaa'' \<noteq> []" "\<forall>c \<in> set ''aaaaa''. \<not> is_space c"
    by (simp_all add: is_space_def)
  have s: "split (concat (replicate 2001 (''aaaaa'' @ '' ''))) = replicate 2001 ''aaaaa''"
    using w by (rule split_repeated_word)
  have s': "split (concat (replicate 2001 ''aaaaa '')) = replicate 2001 ''aaaaa''"
    using s by simp
  have j: "length (join '' '' (replicate 2001 ''aaaaa'')) = 12005"
    by (subst length_join) (simp_all add: sum_list_replicate)
  show ?thesis by (simp add: s' j page_text_def)
qed




text \<open>
  C1 (re-run).  As stated the claim fails for the upload pipeline: \<open>main\<close> tests the
  bucket with \<open>head_bucket\<close> before it looks at the progress file, so a re-run with every
  file marked uploaded still makes one call to the storage.
\<close>

theorem upload_rerun_calls_storage_counterexample:
  "uploaded_keys [(''pdfs/a.pdf'',
        \<lparr>up_file_path = ''downloaded_content/pdfs/a.pdf'', up_s3_key = ''pdfs/a.pdf'',
         up_status = ''success'', up_size = 10, up_error = None\<rparr>)] = [''pdfs/a.pdf'']
   \<and> u_calls (main_upload True False BucketOk (\<lambda>k. UploadOk)
        \<lparr>u_local_files = [(''pdfs/a.pdf'', 10)],
         u_progress_file = Some [(''pdfs/a.pdf'',
            \<lparr>up_file_path = ''downloaded_content/pdfs/a.pdf'', up_s3_key = ''pdfs/a.pdf'',
             up_status = ''success'', up_size = 10, up_error = None\<rparr>)],
         u_error_log = Some [], u_calls = []\<rparr>) = [HeadBucket]"
  by code_simp

text \<open>
  C1 as amended.  When every URL of the input has a success record in the progress file,
  the downloader returns with the progress file, the error log, the files and the list of
  requests as they were.  When every row of the table that has a URL has a non-blank
  \<open>Model_Related\<close> cell, and there is such a row, \<open>process_csv\<close> returns with the
  table, the output file and the list of fetched URLs as they were.  When every local file
  has its key among the uploaded keys, the credentials are set, the bucket is accessible
  and \<open>FORCE_REUPLOAD\<close> is off, the uploader makes the bucket test, no upload, and
  leaves the progress file and the error log as they were.
\<close>

theorem rerun_when_all_done:
  "((\<forall>(u, row) \<in> set (read_urls_from_csv csv_rows).
        md5_hex e u \<in> set (downloaded_ids (load_progress w)))
      \<longrightarrow> main_download e server csv_rows w = Some w)
   \<and> ((\<exists>r \<in> set (cw_input cw). has_url r) \<and> (\<forall>r \<in> set (cw_input cw). has_url r \<longrightarrow> processed r)
      \<longrightarrow> process_csv extract to_output_file max_rows cw = cw)
   \<and> (credentials \<and> \<not> force_reupload \<and> bucket = BucketOk
       \<and> (\<forall>(file_path, nbytes) \<in> set (u_local_files uw).
             generate_s3_key file_path \<in> set (uploaded_keys (load_upload_progress uw)))
      \<longrightarrow> main_upload credentials force_reupload bucket storage uw
            = uw\<lparr>u_calls := u_calls uw @ [HeadBucket]\<rparr>)"
proof (intro conjI impI)
  assume "\<forall>(u, row) \<in> set (read_urls_from_csv csv_rows).
        md5_hex e u \<in> set (downloaded_ids (load_progress w))"
  then have "remaining_urls e (read_urls_from_csv csv_rows) (load_progress w) = []"
    by (rule nothing_remaining)
  then show "main_download e server csv_rows w = Some w"
    by (simp add: main_download_def Let_def)
next
  assume a: "(\<exists>r \<in> set (cw_input cw). has_url r)
      \<and> (\<forall>r \<in> set (cw_input cw). has_url r \<longrightarrow> processed r)"
  then obtain r where r: "r \<in> set (cw_input cw)" "has_url r" by blast
  from a have all: "\<forall>r \<in> set (cw_input cw). has_url r \<longrightarrow> processed r" by simp
  note none = nothing_unprocessed [OF all, of max_rows]
  note some = something_processed [OF r all]
  show "process_csv extract to_output_file max_rows cw = cw"
    by (simp add: process_csv_def Let_def none some)
next
  assume a: "credentials \<and> \<not> force_reupload \<and> bucket = BucketOk
       \<and> (\<forall>(file_path, nbytes) \<in> set (u_local_files uw).
             generate_s3_key file_path \<in> set (uploaded_keys (load_upload_progress uw)))"
  then have "filter (\<lambda>(file_path, nbytes).
        generate_s3_key file_path \<notin> set (uploaded_keys (load_upload_progress uw)))
      (u_local_files uw) = []"
    by (auto simp: filter_empty_conv)
  with a show "main_upload credentials force_reupload bucket storage uw
            = uw\<lparr>u_calls := u_calls uw @ [HeadBucket]\<rparr>"
    by (simp add: main_upload_def Let_def)
qed

theorem rerun_when_all_done_witness:
  "main_download
      \<lparr>md5_hex = (\<lambda>u. ''4741ecc95b697a32b49bca9176b3aafc''), url_path = (\<lambda>u. ''/a.pdf''),
       soup_text = (\<lambda>c. None)\<rparr>
      (\<lambda>u. Inl TimeoutError)
      [\<lparr>col_URL = Some ''http://x/a.pdf'', col_url = None,
        url_row_data = \<lparr>rd_manufacturer = Some ''Acme'', rd_model = Some ''X1'',
                        rd_category = None\<rparr>\<rparr>]
      \<lparr>w_progress_file = Some [(''4741ecc95b697a32b49bca9176b3aafc'',
          \<lparr>d_url = ''http://x/a.pdf'', d_url_id = ''4741ecc95b697a32b49bca9176b3aafc'',
           d_row_data = \<lparr>rd_manufacturer = Some ''Acme'', rd_model = Some ''X1'',
                          rd_category = None\<rparr>,
           d_status = ''success'', d_file_path = Some ''pdfs/Acme_X1_4741ecc9.pdf'',
           d_file_size = 4, d_content_type = Some ''application/pdf'', d_error = None,
           d_text_path = None\<rparr>)],
       w_error_log = None, w_files = [(''pdfs/Acme_X1_4741ecc9.pdf'', ''%PDF'')],
       w_requests = []\<rparr>
    = Some \<lparr>w_progress_file = Some [(''4741ecc95b697a32b49bca9176b3aafc'',
          \<lparr>d_url = ''http://x/a.pdf'', d_url_id = ''4741ecc95b697a32b49bca9176b3aafc'',
           d_row_data = \<lparr>rd_manufacturer = Some ''Acme'', rd_model = Some ''X1'',
                          rd_category = None\<rparr>,
           d_status = ''success'', d_file_path = Some ''pdfs/Acme_X1_4741ecc9.pdf'',
           d_file_size = 4, d_content_type = Some ''application/pdf'', d_error = None,
           d_text_path = None\<rparr>)],
       w_error_log = None, w_files = [(''pdfs/Acme_X1_4741ecc9.pdf'', ''%PDF'')],
       w_requests = []\<rparr>
   \<and> process_csv (\<lambda>u ct. Inl ''unreachable'') False None
        \<lparr>cw_input = [\<lparr>cr_cloudflare_storage = None, cr_url = Some ''http://x/a.pdf'',
                       cr_model = Some ''X1'', cr_content_type = None,
                       cr_model_related = Some ''Yes''\<rparr>,
                      \<lparr>cr_cloudflare_storage = None, cr_url = None,
                       cr_model = Some ''X2'', cr_content_type = None,
                       cr_model_related = None\<rparr>],
         cw_output = None, cw_fetched = []\<rparr>
      = \<lparr>cw_input = [\<lparr>cr_cloudflare_storage = None, cr_url = Some ''http://x/a.pdf'',
                       cr_model = Some ''X1'', cr_content_type = None,
                       cr_model_related = Some ''Yes''\<rparr>,
                      \<lparr>cr_cloudflare_storage = None, cr_url = None,
                       cr_model = Some ''X2'', cr_content_type = None,
                       cr_model_related = None\<rparr>],
         cw_output = None, cw_fetched = []\<rparr>
   \<and> main_upload True False BucketOk (\<lambda>k. UploadOk)
        \<lparr>u_local_files = [(''pdfs/a.pdf'', 10)],
         u_progress_file = Some [(''pdfs/a.pdf'',
            \<lparr>up_file_path = ''downloaded_content/pdfs/a.pdf'', up_s3_key = ''pdfs/a.pdf'',
             up_status = ''success'', up_size = 10, up_error = None\<rparr>)],
         u_error_log = Some [], u_calls = []\<rparr>
      = \<lparr>u_local_files = [(''pdfs/a.pdf'', 10)],
         u_progress_file = Some [(''pdfs/a.pdf'',
            \<lparr>up_file_path = ''downloaded_content/pdfs/a.pdf'', up_s3_key = ''pdfs/a.pdf'',
             up_status = ''success'', up_size = 10, up_error = None\<rparr>)],
         u_error_log = Some [], u_calls = [HeadBucket]\<rparr>"
proof -
  let ?e = "\<lparr>md5_hex = (\<lambda>u. ''4741ecc95b697a32b49bca9176b3aafc''), url_path = (\<lambda>u. ''/a.pdf''),
       soup_text = (\<lambda>c. None)\<rparr>"
  let ?rows = "[\<lparr>col_URL = Some ''http://x/a.pdf'', col_url = None,
        url_row_data = \<lparr>rd_manufacturer = Some ''Acme'', rd_model = Some ''X1'',
                        rd_category = None\<rparr>\<rparr>]"
  let ?w = "\<lparr>w_progress_file = Some [(''4741ecc95b697a32b49bca9176b3aafc'',
          \<lparr>d_url = ''http://x/a.pdf'', d_url_id = ''4741ecc95b697a32b49bca9176b3aafc'',
           d_row_data = \<lparr>rd_manufacturer = Some ''Acme'', rd_model = Some ''X1'',
                          rd_category = None\<rparr>,
           d_status = ''success'', d_file_path = Some ''pdfs/Acme_X1_4741ecc9.pdf'',
           d_file_size = 4, d_content_type = Some ''application/pdf'', d_error = None,
           d_text_path = None\<rparr>)],
       w_error_log = None, w_files = [(''pdfs/Acme_X1_4741ecc9.pdf'', ''%PDF'')],
       w_requests = []\<rparr>"
  let ?cw = "\<lparr>cw_input = [\<lparr>cr_cloudflare_storage = None, cr_url = Some ''http://x/a.pdf'',
                       cr_model = Some ''X1'', cr_content_type = None,
                       cr_model_related = Some ''Yes''\<rparr>,
                      \<lparr>cr_cloudflare_storage = None, cr_url = None,
                       cr_model = Some ''X2'', cr_content_type = None,
                       cr_model_related = None\<rparr>],
         cw_output = None, cw_fetched = []\<rparr>"
  let ?uw = "\<lparr>u_local_files = [(''pdfs/a.pdf'', 10)],
         u_progress_file = Some [(''pdfs/a.pdf'',
            \<lparr>up_file_path = ''downloaded_content/pdfs/a.pdf'', up_s3_key = ''pdfs/a.pdf'',
             up_status = ''success'', up_size = 10, up_error = None\<rparr>)],
         u_error_log = Some [], u_calls = []\<rparr>"
  have h1: "\<forall>(u, row) \<in> set (read_urls_from_csv ?rows).
        md5_hex ?e u \<in> set (downloaded_ids (load_progress ?w))"
    by code_simp
  have h2: "(\<exists>r \<in> set (cw_input ?cw). has_url r)
      \<and> (\<forall>r \<in> set (cw_input ?cw). has_url r \<longrightarrow> processed r)"
    by code_simp
  have h3: "\<forall>(file_path, nbytes) \<in> set (u_local_files ?uw).
             generate_s3_key file_path \<in> set (uploaded_keys (load_upload_progress ?uw))"
    by code_simp
  note t = rerun_when_all_done [of ?rows ?e ?w "\<lambda>u. Inl TimeoutError" ?cw
      "\<lambda>u ct. Inl ''unreachable''" False None True False BucketOk ?uw "\<lambda>k. UploadOk"]
  from t h1 have 1: "main_download ?e (\<lambda>u. Inl TimeoutError) ?rows ?w = Some ?w" by blast
  from t h2 have 2: "process_csv (\<lambda>u ct. Inl ''unreachable'') False None ?cw = ?cw" by blast
  from t h3 have 3: "main_upload True False BucketOk (\<lambda>k. UploadOk) ?uw
      = ?uw\<lparr>u_calls := u_calls ?uw @ [HeadBucket]\<rparr>" by blast
  from 1 2 3 show ?thesis by simp
qed

text \<open>
  C2 (at most 20 downloads at a time).  The semaphore is held while the coroutine object
  is made and during the sleep, and is released before \<open>asyncio.gather\<close> starts the
  downloads: it does not limit them.  For a batch of 21 URLs (a batch has up to 100) all 21
  downloads are in flight at once, with the semaphore back at its initial value.
\<close>

theorem download_batch_exceeds_limit:
  "map_option (\<lambda>s. (sem_value s, made s, length (in_flight s))) (download_batch [0 ..< 21])
     = Some (20, [], 21)
   \<and> CONCURRENT_DOWNLOADS < 21"
  by code_simp

end
